theory Spec2Isabelle
  imports Complex_Main "HOL-Library.Char_ord" "HOL-Library.List_Lexorder" "HOL-Library.AList"
    "HOL-Library.Multiset"
begin

section \<open>Data model\<close>

text \<open>
  The dashboard script \<^verbatim>\<open>app.py\<close> works on pandas data frames. A data frame is
  modelled as an association list from column labels to columns, in column order.
  \<^verbatim>\<open>pd.read_csv\<close> gives every column a dtype: a column whose fields are all numbers
  or empty is numeric (\<^verbatim>\<open>int64\<close>/\<^verbatim>\<open>float64\<close>, an empty field is \<^verbatim>\<open>NaN\<close>),
  a column holding any other text has dtype \<^verbatim>\<open>object\<close> and holds strings (an empty
  field is again missing). A missing entry is \<open>None\<close>. Numbers are modelled as exact
  reals: rounding of IEEE doubles is outside the model.
\<close>

datatype column = NumCol "real option list" | ObjCol "string option list"

datatype cell = NA | Num real | Str string

type_synonym frame = "(string \<times> column) list"

fun cells :: "column \<Rightarrow> cell list" where
  "cells (NumCol xs) = map (\<lambda>x. case x of None \<Rightarrow> NA | Some v \<Rightarrow> Num v) xs"
| "cells (ObjCol xs) = map (\<lambda>x. case x of None \<Rightarrow> NA | Some s \<Rightarrow> Str s) xs"

fun is_number :: "column \<Rightarrow> bool" where
  "is_number (NumCol xs) = True"
| "is_number (ObjCol xs) = False"

text \<open>Python exceptions: the one the loader handles by name, and any other, with its text.\<close>

datatype exn = FileNotFoundError | Exception string

definition bind_exn :: "exn + 'a \<Rightarrow> ('a \<Rightarrow> exn + 'b) \<Rightarrow> exn + 'b" where
  "bind_exn m f = (case m of Inl e \<Rightarrow> Inl e | Inr x \<Rightarrow> f x)"

fun mapM_exn :: "('a \<Rightarrow> exn + 'b) \<Rightarrow> 'a list \<Rightarrow> exn + 'b list" where
  "mapM_exn f [] = Inr []"
| "mapM_exn f (x # xs) =
     bind_exn (f x) (\<lambda>y. bind_exn (mapM_exn f xs) (\<lambda>ys. Inr (y # ys)))"

text \<open>\<^verbatim>\<open>df[name]\<close>: the column with that label, or \<^verbatim>\<open>KeyError\<close>, whose text is the
  quoted label.\<close>

definition getitem :: "frame \<Rightarrow> string \<Rightarrow> exn + column" where
  "getitem df name =
     (case map_of df name of
        None \<Rightarrow> Inl (Exception ([CHR 0x27] @ name @ [CHR 0x27]))
      | Some c \<Rightarrow> Inr c)"

text \<open>\<^verbatim>\<open>len(df)\<close>: the number of rows (every column of a data frame has that many entries).\<close>

fun nrows :: "frame \<Rightarrow> nat" where
  "nrows [] = 0"
| "nrows ((name, c) # df) = length (cells c)"

definition wf_frame :: "frame \<Rightarrow> bool" where
  "wf_frame df = list_all (\<lambda>(name, c). length (cells c) = nrows df) df"

section \<open>The loader\<close>

text \<open>The ten labels of lines 19-21; the third one ends in the five bytes the source file has
  between \<^verbatim>\<open>_\<close> and \<^verbatim>\<open>C\<close>.\<close>

definition Avg_Temperature_C :: string where
  "Avg_Temperature_C = ''Avg_Temperature_'' @ [CHR 0xC2, CHR 0xAC, CHR 0xE2, CHR 0x88, CHR 0x9E] @ ''C''"

definition column_labels :: "string list" where
  "column_labels = [''Year'', ''Country'', Avg_Temperature_C, ''CO2_Emissions_Tons/Capita'',
     ''Sea_Level_Rise_mm'', ''Rainfall_mm'', ''Population'', ''Renewable_Energy_%'',
     ''Extreme_Weather_Events'', ''Forest_Area_%'']"

fun show_nat :: "nat \<Rightarrow> string" where
  "show_nat n =
     (if n < 10 then [''0123456789'' ! n]
      else show_nat (n div 10) @ [''0123456789'' ! (n mod 10)])"

declare show_nat.simps [simp del]

text \<open>\<^verbatim>\<open>df.columns = labels\<close>: positional, and a \<^verbatim>\<open>ValueError\<close> when the counts differ.\<close>

definition set_columns :: "column list \<Rightarrow> string list \<Rightarrow> exn + frame" where
  "set_columns cols labels =
     (if length cols \<noteq> length labels
      then Inl (Exception (''Length mismatch: Expected axis has '' @ show_nat (length cols)
             @ '' elements, new values have '' @ show_nat (length labels) @ '' elements''))
      else Inr (zip labels cols))"

fun dropna :: "'a option list \<Rightarrow> 'a list" where
  "dropna [] = []"
| "dropna (None # xs) = dropna xs"
| "dropna (Some x # xs) = x # dropna xs"

text \<open>\<^verbatim>\<open>Series.median()\<close> skips missing entries; of none it is \<^verbatim>\<open>NaN\<close>.\<close>

definition median :: "real option list \<Rightarrow> real option" where
  "median xs =
     (let ys = sort (dropna xs); n = length ys in
      if n = 0 then None
      else if odd n then Some (ys ! (n div 2))
      else Some ((ys ! (n div 2 - 1) + ys ! (n div 2)) / 2))"

text \<open>\<^verbatim>\<open>Series.fillna(v)\<close>; filling with \<^verbatim>\<open>NaN\<close> changes nothing.\<close>

fun fillna :: "real option list \<Rightarrow> real option \<Rightarrow> real option list" where
  "fillna xs None = xs"
| "fillna xs (Some m) = map (\<lambda>x. case x of None \<Rightarrow> Some m | Some v \<Rightarrow> Some v) xs"

definition select_dtypes_number :: "frame \<Rightarrow> string list" where
  "select_dtypes_number df = map fst (filter (\<lambda>(name, c). is_number c) df)"

text \<open>The body of the loop of lines 24-26, for one label \<open>col\<close>.\<close>

definition impute_col :: "string \<Rightarrow> frame \<Rightarrow> frame" where
  "impute_col col df =
     (if col \<noteq> ''Year''
      then (case map_of df col of
              Some (NumCol xs) \<Rightarrow> AList.update col (NumCol (fillna xs (median xs))) df
            | _ \<Rightarrow> df)
      else df)"

definition impute :: "frame \<Rightarrow> frame" where
  "impute df = fold impute_col (select_dtypes_number df) df"

text \<open>
  \<^verbatim>\<open>df.groupby('Country')\<close>: one group per distinct non-missing key (rows whose key is
  missing are dropped), the groups in ascending key order.
\<close>

fun key_column :: "column \<Rightarrow> column" where
  "key_column (NumCol xs) = NumCol (map Some (sort (remdups (dropna xs))))"
| "key_column (ObjCol xs) = ObjCol (map Some (sort (remdups (dropna xs))))"

definition group_keys :: "column \<Rightarrow> cell list" where
  "group_keys c = cells (key_column c)"

text \<open>Elementwise \<^verbatim>\<open>==\<close>: a missing entry equals nothing, not even a missing one.\<close>

fun cell_eq :: "cell \<Rightarrow> cell \<Rightarrow> bool" where
  "cell_eq (Num a) (Num b) = (a = b)"
| "cell_eq (Str a) (Str b) = (a = b)"
| "cell_eq c d = False"

definition eq_mask :: "column \<Rightarrow> cell \<Rightarrow> bool list" where
  "eq_mask c k = map (\<lambda>x. cell_eq x k) (cells c)"

definition mask_list :: "bool list \<Rightarrow> 'a list \<Rightarrow> 'a list" where
  "mask_list m xs = map snd (filter fst (zip m xs))"

fun take_rows :: "bool list \<Rightarrow> column \<Rightarrow> column" where
  "take_rows m (NumCol xs) = NumCol (mask_list m xs)"
| "take_rows m (ObjCol xs) = ObjCol (mask_list m xs)"

text \<open>
  The aggregations of one group. \<^verbatim>\<open>mean\<close> and \<^verbatim>\<open>sum\<close> skip missing entries; the mean of
  no value is \<^verbatim>\<open>NaN\<close>, the sum of none is 0. On an \<^verbatim>\<open>object\<close> column (pandas 2)
  \<^verbatim>\<open>mean\<close> raises \<^verbatim>\<open>TypeError\<close> as soon as the group holds a string, and \<^verbatim>\<open>sum\<close>
  concatenates the strings.
\<close>

definition mean :: "real list \<Rightarrow> real option" where
  "mean xs = (if xs = [] then None else Some (sum_list xs / real (length xs)))"

fun agg_mean :: "column \<Rightarrow> exn + real option" where
  "agg_mean (NumCol xs) = Inr (mean (dropna xs))"
| "agg_mean (ObjCol xs) =
     (if dropna xs = [] then Inr None
      else Inl (Exception ''agg function failed [how->mean,dtype->object]''))"

fun agg_sum :: "column \<Rightarrow> exn + cell" where
  "agg_sum (NumCol xs) = Inr (Num (sum_list (dropna xs)))"
| "agg_sum (ObjCol xs) = Inr (if dropna xs = [] then Num 0 else Str (concat (dropna xs)))"

record summary_row =
  Country :: cell
  Avg_Temp :: "real option"
  Avg_CO2_Emissions :: "real option"
  Avg_Sea_Level_Rise :: "real option"
  Avg_Rainfall :: "real option"
  Avg_Renewable_Energy :: "real option"
  Total_Extreme_Weather_Events :: cell
  Avg_Forest_Area :: "real option"
  Avg_Population :: "real option"

text \<open>One named aggregation \<^verbatim>\<open>(label, how)\<close> of lines 30-37, on the rows of mask \<open>m\<close>.\<close>

definition named_agg :: "frame \<Rightarrow> bool list \<Rightarrow> string \<Rightarrow> (column \<Rightarrow> exn + 'a) \<Rightarrow> exn + 'a" where
  "named_agg df m label how = bind_exn (getitem df label) (\<lambda>c. how (take_rows m c))"

definition agg_row :: "frame \<Rightarrow> column \<Rightarrow> cell \<Rightarrow> exn + summary_row" where
  "agg_row df by k =
     (let m = eq_mask by k in
      bind_exn (named_agg df m Avg_Temperature_C agg_mean) (\<lambda>temp.
      bind_exn (named_agg df m ''CO2_Emissions_Tons/Capita'' agg_mean) (\<lambda>co2.
      bind_exn (named_agg df m ''Sea_Level_Rise_mm'' agg_mean) (\<lambda>sea.
      bind_exn (named_agg df m ''Rainfall_mm'' agg_mean) (\<lambda>rain.
      bind_exn (named_agg df m ''Renewable_Energy_%'' agg_mean) (\<lambda>renew.
      bind_exn (named_agg df m ''Extreme_Weather_Events'' agg_sum) (\<lambda>events.
      bind_exn (named_agg df m ''Forest_Area_%'' agg_mean) (\<lambda>forest.
      bind_exn (named_agg df m ''Population'' agg_mean) (\<lambda>pop.
      Inr \<lparr>Country = k, Avg_Temp = temp, Avg_CO2_Emissions = co2,
           Avg_Sea_Level_Rise = sea, Avg_Rainfall = rain, Avg_Renewable_Energy = renew,
           Total_Extreme_Weather_Events = events, Avg_Forest_Area = forest,
           Avg_Population = pop\<rparr>)))))))))"

text \<open>\<^verbatim>\<open>df.groupby('Country').agg(...).reset_index()\<close>, lines 29-38.\<close>

definition groupby_agg :: "frame \<Rightarrow> exn + summary_row list" where
  "groupby_agg df =
     bind_exn (getitem df ''Country'') (\<lambda>by. mapM_exn (agg_row df by) (group_keys by))"

text \<open>
  \<^verbatim>\<open>sort_values(by='Avg_CO2_Emissions', ascending=False)\<close>, line 41: descending, rows whose
  mean is missing last. Rows of equal mean are kept in their order (numpy's default sort
  promises no order among them).
\<close>

definition sort_values_desc :: "summary_row list \<Rightarrow> summary_row list" where
  "sort_values_desc rows =
     sort_key (\<lambda>r. - the (Avg_CO2_Emissions r)) (filter (\<lambda>r. Avg_CO2_Emissions r \<noteq> None) rows)
     @ filter (\<lambda>r. Avg_CO2_Emissions r = None) rows"

text \<open>
  The body of the \<^verbatim>\<open>try\<close> of \<^verbatim>\<open>load_data\<close>, lines 17-43. Its argument is what
  \<^verbatim>\<open>pd.read_csv\<close> did: it raised, or it returned the columns of the file.
\<close>

type_synonym csv_read = "exn + column list"

definition load_data_try :: "csv_read \<Rightarrow> exn + frame \<times> summary_row list" where
  "load_data_try read_csv =
     bind_exn read_csv (\<lambda>cols.
     bind_exn (set_columns cols column_labels) (\<lambda>df0.
     let df = impute df0 in
     bind_exn (groupby_agg df) (\<lambda>country_stats.
     Inr (df, sort_values_desc country_stats))))"

text \<open>
  \<^verbatim>\<open>load_data\<close> with its two handlers, lines 44-49: \<open>Inl msg\<close> is \<^verbatim>\<open>st.error(msg)\<close>
  followed by \<^verbatim>\<open>st.stop()\<close>, which ends the script run.
\<close>

definition load_data :: "csv_read \<Rightarrow> string + frame \<times> summary_row list" where
  "load_data read_csv =
     (case load_data_try read_csv of
        Inr tables \<Rightarrow> Inr tables
      | Inl FileNotFoundError \<Rightarrow>
          Inl (''Error: '' @ [CHR 0x60] @ ''climate_change_dataset.csv'' @ [CHR 0x60]
               @ '' not found. Please upload the file or ensure it'' @ [CHR 0x27]
               @ ''s in the correct directory.'')
      | Inl (Exception e) \<Rightarrow>
          Inl (''An error occurred during data loading or preprocessing: '' @ e))"

section \<open>The script after the loader\<close>

text \<open>Lines 102-105: the rows of the selected country, or every row for \<^verbatim>\<open>"All"\<close>.\<close>

definition df_filtered :: "frame \<Rightarrow> cell \<Rightarrow> exn + frame" where
  "df_filtered df selected_country =
     (if selected_country \<noteq> Str ''All''
      then bind_exn (getitem df ''Country'') (\<lambda>c.
             Inr (map (\<lambda>(label, col). (label, take_rows (eq_mask c selected_country) col)) df))
      else Inr df)"












text \<open>
  Lines 166-191: the scatter plot has one point per row, with the row's country as hover
  name, and is coloured by the row's year when \<open>color\<close> is \<^verbatim>\<open>'Year'\<close>.
\<close>

record point =
  point_x :: cell
  point_y :: cell
  hover_name :: cell
  point_color :: "cell option"

datatype scatter_view = Scatter_Warning string | Scatter_Plot "point list"

definition px_scatter :: "frame \<Rightarrow> string \<Rightarrow> string \<Rightarrow> string option \<Rightarrow> string \<Rightarrow> exn + point list" where
  "px_scatter df x y color hover =
     bind_exn (getitem df x) (\<lambda>xs.
     bind_exn (getitem df y) (\<lambda>ys.
     bind_exn (getitem df hover) (\<lambda>hs.
     bind_exn (case color of None \<Rightarrow> Inr None
               | Some c \<Rightarrow> bind_exn (getitem df c) (\<lambda>cs. Inr (Some cs))) (\<lambda>cs.
     Inr (map (\<lambda>(vx, vy, h, c). \<lparr>point_x = vx, point_y = vy, hover_name = h, point_color = c\<rparr>)
            (zip (cells xs) (zip (cells ys) (zip (cells hs)
               (case cs of None \<Rightarrow> map (\<lambda>h. None) (cells hs)
                | Some c \<Rightarrow> map Some (cells c))))))))))"

definition fig_scatter :: "frame \<Rightarrow> cell \<Rightarrow> string \<Rightarrow> string \<Rightarrow> exn + scatter_view" where
  "fig_scatter df selected_country scatter_x_metric scatter_y_metric =
     (if scatter_x_metric \<in> set (map fst df) \<and> scatter_y_metric \<in> set (map fst df)
      then bind_exn (px_scatter df scatter_x_metric scatter_y_metric
                       (if selected_country = Str ''All'' then Some ''Year'' else None) ''Country'')
             (\<lambda>ps. Inr (Scatter_Plot ps))
      else Inr (Scatter_Warning ''Please ensure both selected metrics are available in the dataset.''))"








section \<open>Auxiliary notions for the statements\<close>

text \<open>What lines 24-26 do to one column that is not \<^verbatim>\<open>Year\<close>.\<close>

fun fill_column :: "column \<Rightarrow> column" where
  "fill_column (NumCol xs) = NumCol (fillna xs (median xs))"
| "fill_column (ObjCol xs) = ObjCol xs"

definition fill_in :: "string set \<Rightarrow> frame \<Rightarrow> frame" where
  "fill_in S df =
     map (\<lambda>(label, c). (label, if label \<in> S \<and> label \<noteq> ''Year'' then fill_column c else c)) df"

text \<open>The two tables \<^verbatim>\<open>load_data\<close> returns, when it returns.\<close>

definition observation_table :: "csv_read \<Rightarrow> frame option" where
  "observation_table read_csv =
     (case load_data read_csv of Inl msg \<Rightarrow> None | Inr (df, stats) \<Rightarrow> Some df)"

definition country_summary :: "csv_read \<Rightarrow> summary_row list option" where
  "country_summary read_csv =
     (case load_data read_csv of Inl msg \<Rightarrow> None | Inr (df, stats) \<Rightarrow> Some stats)"

subsection \<open>Example files\<close>

text \<open>Two countries and two years, with one temperature missing.\<close>

definition scenario_csv :: "column list" where
  "scenario_csv =
    [NumCol [Some 2000, Some 2001, Some 2000, Some 2001],
     ObjCol [Some ''A'', Some ''A'', Some ''B'', Some ''B''],
     NumCol [Some 14, None, Some 16, Some 20],
     NumCol [Some 4, Some 6, Some 1, Some 3],
     NumCol [Some 3, Some 4, Some 3, Some 4],
     NumCol [Some 800, Some 900, Some 500, Some 700],
     NumCol [Some 10, Some 12, Some 30, Some 32],
     NumCol [Some 20, Some 22, Some 5, Some 7],
     NumCol [Some 1, Some 2, Some 0, Some 5],
     NumCol [Some 30, Some 30, Some 60, Some 58]]"

text \<open>The same file with every field of the fourth column empty.\<close>

definition no_co2_csv :: "column list" where
  "no_co2_csv = scenario_csv[3 := NumCol [None, None, None, None]]"

text \<open>The same file with country codes, one of them missing, in the second column.\<close>

definition coded_country_csv :: "column list" where
  "coded_country_csv = scenario_csv[1 := NumCol [Some 1, None, Some 2, Some 3]]"

text \<open>The same file without its first column, with its fourth and fifth columns exchanged,
  and with text in the fourth column.\<close>

definition nine_column_csv :: "column list" where
  "nine_column_csv = tl scenario_csv"

definition swapped_csv :: "column list" where
  "swapped_csv = scenario_csv[3 := scenario_csv ! 4, 4 := scenario_csv ! 3]"



definition other_error_message :: "string \<Rightarrow> string" where
  "other_error_message e = ''An error occurred during data loading or preprocessing: '' @ e"



text \<open>The observation table of the first example file, and its rows of country \<open>B\<close>.\<close>

definition scenario_table :: frame where
  "scenario_table =
     zip column_labels (scenario_csv[2 := NumCol [Some 14, Some 16, Some 16, Some 20]])"

definition scenario_table_B :: frame where
  "scenario_table_B = zip column_labels
    [NumCol [Some 2000, Some 2001],
     ObjCol [Some ''B'', Some ''B''],
     NumCol [Some 16, Some 20],
     NumCol [Some 1, Some 3],
     NumCol [Some 3, Some 4],
     NumCol [Some 500, Some 700],
     NumCol [Some 30, Some 32],
     NumCol [Some 5, Some 7],
     NumCol [Some 0, Some 5],
     NumCol [Some 60, Some 58]]"




text \<open>
  Comparison of two means as Python compares floats (\<^verbatim>\<open>NaN\<close> compares false with
  everything), and the order \<^verbatim>\<open>sort_values\<close> establishes: descending, missing means last.
\<close>

fun float_ge :: "real option \<Rightarrow> real option \<Rightarrow> bool" where
  "float_ge (Some a) (Some b) = (b \<le> a)"
| "float_ge x y = False"

fun ge_na_last :: "real option \<Rightarrow> real option \<Rightarrow> bool" where
  "ge_na_last (Some a) (Some b) = (b \<le> a)"
| "ge_na_last x None = True"
| "ge_na_last None (Some b) = False"

section \<open>Imputation\<close>

lemma update_map_distinct:
  "distinct (map fst df) \<Longrightarrow> map_of df k = Some c \<Longrightarrow>
   AList.update k v df = map (\<lambda>(l, c). (l, if l = k then v else c)) df"
proof (induction df)
  case Nil
  then show ?case by simp
next
  case (Cons a df)
  obtain l c' where a: "a = (l, c')" by (cases a)
  show ?case
  proof (cases "l = k")
    case True
    with Cons.prems a have "k \<notin> fst ` set df" by auto
    then have "map (\<lambda>(l, c). (l, if l = k then v else c)) df = df"
      by (induction df) auto
    with True a show ?thesis by simp
  next
    case False
    with Cons a show ?thesis by simp
  qed
qed

lemma impute_col_fill_in:
  assumes "distinct (map fst df)"
  shows "impute_col k df = fill_in {k} df"
proof (cases "k = ''Year''")
  case True
  then show ?thesis by (simp add: impute_col_def fill_in_def)
next
  case False
  show ?thesis
  proof (cases "map_of df k")
    case None
    then have "k \<notin> fst ` set df" by (simp add: map_of_eq_None_iff)
    then have "fill_in {k} df = df"
      unfolding fill_in_def by (induction df) auto
    with None False show ?thesis by (simp add: impute_col_def)
  next
    case (Some c)
    have eq: "fill_in {k} df = map (\<lambda>(l, c'). (l, if l = k then fill_column c else c')) df"
      unfolding fill_in_def using Some assms False
      by (auto simp: map_of_eq_Some_iff[OF assms] dest: eq_key_imp_eq_value[OF assms])
    show ?thesis
    proof (cases c)
      case (NumCol xs)
      with Some False assms eq show ?thesis
        by (auto simp add: impute_col_def update_map_distinct)
    next
      case (ObjCol xs)
      have "map (\<lambda>(l, c'). (l, if l = k then fill_column c else c')) df = df"
        using Some assms ObjCol
        by (intro map_idI) (auto simp: map_of_eq_Some_iff[OF assms] dest: eq_key_imp_eq_value[OF assms])
      with ObjCol Some False eq show ?thesis
        by (simp add: impute_col_def)
    qed
  qed
qed

lemma fill_in_labels: "map fst (fill_in S df) = map fst df"
  by (induction df) (auto simp: fill_in_def)

lemma fill_in_fill_in:
  "k \<notin> S \<Longrightarrow> fill_in S (fill_in {k} df) = fill_in (insert k S) df"
  by (induction df) (auto simp: fill_in_def)

lemma fold_impute_col:
  "distinct (map fst df) \<Longrightarrow> distinct ks \<Longrightarrow> fold impute_col ks df = fill_in (set ks) df"
proof (induction ks arbitrary: df)
  case Nil
  have "fill_in {} df = df" unfolding fill_in_def by (induction df) auto
  then show ?case by simp
next
  case (Cons k ks)
  then show ?case
    by (simp add: impute_col_fill_in fill_in_labels fill_in_fill_in)
qed

lemma impute_eq:
  assumes "distinct (map fst df)"
  shows "impute df = map (\<lambda>(label, c). (label, if label \<noteq> ''Year'' then fill_column c else c)) df"
proof -
  have d: "distinct (select_dtypes_number df)"
    unfolding select_dtypes_number_def using assms by (simp add: distinct_map_filter)
  have "fill_in (set (select_dtypes_number df)) df
      = map (\<lambda>(label, c). (label, if label \<noteq> ''Year'' then fill_column c else c)) df"
    unfolding fill_in_def
  proof (intro map_cong refl)
    fix p assume p: "p \<in> set df"
    obtain l c where lc: "p = (l, c)" by (cases p)
    show "(case p of (label, c) \<Rightarrow> (label, if label \<in> set (select_dtypes_number df) \<and> label \<noteq> ''Year'' then fill_column c else c))
        = (case p of (label, c) \<Rightarrow> (label, if label \<noteq> ''Year'' then fill_column c else c))"
    proof (cases c)
      case (NumCol xs)
      with p lc have "l \<in> set (select_dtypes_number df)"
        unfolding select_dtypes_number_def by force
      with lc show ?thesis by simp
    next
      case (ObjCol xs)
      with lc show ?thesis by simp
    qed
  qed
  with d assms show ?thesis by (simp add: impute_def fold_impute_col)
qed

lemma labels_distinct: "distinct column_labels"
  by (simp add: column_labels_def Avg_Temperature_C_def)

lemma fillna_median: "fillna xs (median xs) = map (\<lambda>x. case x of None \<Rightarrow> median xs | Some v \<Rightarrow> Some v) xs"
proof (cases "median xs")
  case None
  have "map (\<lambda>x. case x of None \<Rightarrow> None | Some v \<Rightarrow> Some v) xs = xs"
    by (intro map_idI) (simp split: option.splits)
  then show ?thesis unfolding None by simp
next
  case (Some m)
  then show ?thesis by (simp cong: option.case_cong)
qed

lemma length_dropna_sort: "length (sort (dropna xs)) = length (dropna xs)" by simp

lemma median_Some: "dropna xs \<noteq> [] \<Longrightarrow> median xs \<noteq> None"
proof -
  assume ne0: "dropna xs \<noteq> []"
  have "length (sort (dropna xs)) = length (dropna xs)" by simp
  with ne0 have "sort (dropna xs) \<noteq> []" by (metis length_0_conv)
  note ne = ne0 this
  show ?thesis
  proof (cases "odd (length (dropna xs))")
    case True
    with ne have "median xs = Some (sort (dropna xs) ! (length (dropna xs) div 2))"
      by (simp add: median_def Let_def)
    then show ?thesis by simp
  next
    case False
    with ne have "median xs = Some ((sort (dropna xs) ! (length (dropna xs) div 2 - 1)
        + sort (dropna xs) ! (length (dropna xs) div 2)) / 2)"
      by (simp add: median_def Let_def)
    then show ?thesis by simp
  qed
qed

lemma fillna_no_missing: "dropna xs \<noteq> [] \<Longrightarrow> None \<notin> set (fillna xs (median xs))"
  using median_Some[of xs] by (auto split: option.splits)

lemma load_data_try_Inr:
  assumes "load_data_try (Inr cols) = Inr (df, stats)"
  shows "length cols = 10"
    and "df = map (\<lambda>(label, c). (label, if label \<noteq> ''Year'' then fill_column c else c)) (zip column_labels cols)"
    and "\<exists>rows. groupby_agg df = Inr rows \<and> stats = sort_values_desc rows"
proof -
  from assms show len: "length cols = 10"
    by (auto simp: load_data_try_def bind_exn_def set_columns_def column_labels_def split: if_splits)
  then have sc: "set_columns cols column_labels = Inr (zip column_labels cols)"
    by (simp add: set_columns_def column_labels_def)
  have "distinct (map fst (zip column_labels cols))"
    using len labels_distinct by (simp add: column_labels_def)
  then have imp: "impute (zip column_labels cols) = map (\<lambda>(label, c). (label, if label \<noteq> ''Year'' then fill_column c else c)) (zip column_labels cols)"
    by (rule impute_eq)
  from assms sc show "df = map (\<lambda>(label, c). (label, if label \<noteq> ''Year'' then fill_column c else c)) (zip column_labels cols)"
    unfolding imp[symmetric]
    by (auto simp: load_data_try_def bind_exn_def Let_def split: sum.splits)
  from assms sc show "\<exists>rows. groupby_agg df = Inr rows \<and> stats = sort_values_desc rows"
    by (auto simp: load_data_try_def bind_exn_def Let_def split: sum.splits)
qed

lemma load_data_Inr: "load_data r = Inr t \<longleftrightarrow> load_data_try r = Inr t"
  by (auto simp: load_data_def split: sum.splits exn.splits)

lemma loaded_nth:
  assumes "load_data (Inr cols) = Inr (df, stats)" and "i < length cols"
  shows "df ! i = (column_labels ! i, if column_labels ! i \<noteq> ''Year'' then fill_column (cols ! i) else cols ! i)"
proof -
  from assms(1) have t: "load_data_try (Inr cols) = Inr (df, stats)" by (simp add: load_data_Inr)
  from load_data_try_Inr(1)[OF t] have "length column_labels = length cols" by (simp add: column_labels_def)
  with assms(2) show ?thesis
    unfolding load_data_try_Inr(2)[OF t] by simp
qed

lemmas load_eval = load_data_def load_data_try_def bind_exn_def set_columns_def column_labels_def
  Avg_Temperature_C_def impute_def select_dtypes_number_def impute_col_def median_def
  groupby_agg_def getitem_def agg_row_def named_agg_def eq_mask_def mask_list_def mean_def
  sort_values_desc_def group_keys_def observation_table_def country_summary_def

lemma scenario_loads: "\<exists>df stats. load_data (Inr scenario_csv) = Inr (df, stats)"
  by (simp add: scenario_csv_def load_eval)

section \<open>The loader's imputation\<close>

text \<open>
  C1 (amended). When \<^verbatim>\<open>load_data\<close> returns, every numeric column other than \<^verbatim>\<open>Year\<close>
  comes back with each missing entry replaced by the median of the column over the whole
  file and every other entry as it was; if the column has at least one entry that is not
  missing, it comes back with no missing entry. (A column with no entry at all has no
  median, and stays as it is.)
\<close>

theorem load_data_imputes_median:
  assumes "load_data (Inr cols) = Inr (df, stats)"
    and "i < length cols" and "column_labels ! i \<noteq> ''Year''" and "cols ! i = NumCol xs"
  shows "df ! i = (column_labels ! i, NumCol (map (\<lambda>x. case x of None \<Rightarrow> median xs | Some v \<Rightarrow> Some v) xs))
       \<and> (dropna xs \<noteq> [] \<longrightarrow>
            None \<notin> set (map (\<lambda>x. case x of None \<Rightarrow> median xs | Some v \<Rightarrow> Some v) xs))"
  using loaded_nth[OF assms(1,2)] assms(3,4) fillna_no_missing[of xs]
  by (simp add: fillna_median[symmetric])

theorem load_data_imputes_median_witness:
  "\<exists>df stats. load_data (Inr scenario_csv) = Inr (df, stats)
     \<and> df ! 2 = (Avg_Temperature_C, NumCol [Some 14, Some 16, Some 16, Some 20])
     \<and> None \<notin> set [Some 14, Some 16, Some 16, Some (20::real)]"
proof -
  from scenario_loads obtain df stats where l: "load_data (Inr scenario_csv) = Inr (df, stats)"
    by blast
  have "df ! 2 = (Avg_Temperature_C, NumCol [Some 14, Some 16, Some 16, Some 20])"
    using load_data_imputes_median[OF l, of 2 "[Some 14, None, Some 16, Some 20]"]
    by (simp add: scenario_csv_def column_labels_def median_def Avg_Temperature_C_def)
  with l show ?thesis by simp
qed

text \<open>
  The claim as stated fails on a file whose fourth column is empty in every row: the
  column is numeric, its median is \<^verbatim>\<open>NaN\<close>, and the loaded table still has it missing.
\<close>

theorem empty_column_stays_missing:
  "map_option (\<lambda>df. getitem df ''CO2_Emissions_Tons/Capita'') (observation_table (Inr no_co2_csv))
     = Some (Inr (NumCol [None, None, None, None]))"
  by (simp add: no_co2_csv_def scenario_csv_def load_eval)

lemma cells_fill_length: "length (cells (fill_column c)) = length (cells c)"
  by (cases c) (simp_all add: fillna_median)

lemma cells_fill_nth:
  "j < length (cells c) \<Longrightarrow> cells c ! j \<noteq> NA \<Longrightarrow> cells (fill_column c) ! j = cells c ! j"
  by (cases c) (auto simp: fillna_median split: option.splits)

lemma fill_column_object: "\<not> is_number c \<Longrightarrow> fill_column c = c"
  by (cases c) simp_all

text \<open>
  C10 (amended). When \<^verbatim>\<open>load_data\<close> returns, the observation table has the columns of
  the file in their order, under the ten labels; every column has as many rows as before,
  every entry that was not missing is where and what it was, the \<^verbatim>\<open>Year\<close> column is
  unchanged, and so is every column that is not numeric (the \<^verbatim>\<open>Country\<close> column of a
  file that names its countries).
\<close>

theorem imputation_frame:
  assumes "load_data (Inr cols) = Inr (df, stats)" and "i < length cols"
  shows "length df = length cols \<and> fst (df ! i) = column_labels ! i
       \<and> length (cells (snd (df ! i))) = length (cells (cols ! i))
       \<and> (\<forall>j < length (cells (cols ! i)).
            cells (cols ! i) ! j \<noteq> NA \<longrightarrow> cells (snd (df ! i)) ! j = cells (cols ! i) ! j)
       \<and> (column_labels ! i = ''Year'' \<or> \<not> is_number (cols ! i) \<longrightarrow> snd (df ! i) = cols ! i)"
proof -
  from assms(1) have t: "load_data_try (Inr cols) = Inr (df, stats)" by (simp add: load_data_Inr)
  have "length df = length cols"
    unfolding load_data_try_Inr(2)[OF t] using load_data_try_Inr(1)[OF t]
    by (simp add: column_labels_def)
  then show ?thesis
    using loaded_nth[OF assms]
    by (auto simp: cells_fill_length cells_fill_nth fill_column_object)
qed

theorem imputation_frame_witness:
  "\<exists>df stats. load_data (Inr scenario_csv) = Inr (df, stats)
     \<and> length df = 10
     \<and> fst (df ! 2) = Avg_Temperature_C \<and> length (cells (snd (df ! 2))) = 4
     \<and> cells (snd (df ! 2)) ! 0 = Num 14 \<and> cells (snd (df ! 2)) ! 3 = Num 20
     \<and> snd (df ! 0) = NumCol [Some 2000, Some 2001, Some 2000, Some 2001]
     \<and> snd (df ! 1) = ObjCol [Some ''A'', Some ''A'', Some ''B'', Some ''B'']"
proof -
  from scenario_loads obtain df stats where l: "load_data (Inr scenario_csv) = Inr (df, stats)"
    by blast
  have "length df = 10 \<and> fst (df ! 2) = Avg_Temperature_C \<and> length (cells (snd (df ! 2))) = 4
     \<and> cells (snd (df ! 2)) ! 0 = Num 14 \<and> cells (snd (df ! 2)) ! 3 = Num 20"
    using imputation_frame[OF l, of 2]
    by (simp add: scenario_csv_def column_labels_def)
  moreover have "snd (df ! 0) = NumCol [Some 2000, Some 2001, Some 2000, Some 2001]"
    using imputation_frame[OF l, of 0]
    by (simp add: scenario_csv_def column_labels_def)
  moreover have "snd (df ! 1) = ObjCol [Some ''A'', Some ''A'', Some ''B'', Some ''B'']"
    using imputation_frame[OF l, of 1]
    by (simp add: scenario_csv_def column_labels_def)
  ultimately show ?thesis using l by simp
qed

text \<open>
  The \<^verbatim>\<open>Country\<close> column is not exempt by its label: a file with numeric country codes
  gets the missing code replaced by the median code.
\<close>

theorem numeric_country_is_imputed:
  "map_option (\<lambda>df. getitem df ''Country'') (observation_table (Inr coded_country_csv))
     = Some (Inr (NumCol [Some 1, Some 2, Some 2, Some 3]))
   \<and> coded_country_csv ! 1 = NumCol [Some 1, None, Some 2, Some 3]"
  by (simp add: coded_country_csv_def scenario_csv_def load_eval)

section \<open>Renaming and failures of the loader\<close>

lemma length_labels: "length column_labels = 10"
  by (simp add: column_labels_def)

lemma show_nat_digit: "n < 10 \<Longrightarrow> show_nat n = [''0123456789'' ! n]"
  by (subst show_nat.simps) simp

lemma show_nat_10: "show_nat 10 = ''10''"
  by (subst show_nat.simps) (simp add: show_nat_digit)

lemma map_fst_relabel: "map fst (map (\<lambda>(l, c). (l, g l c)) zs) = map fst zs"
  by (induction zs) auto

lemma load_data_length_mismatch:
  "length cols \<noteq> 10 \<Longrightarrow>
   load_data (Inr cols) = Inl (other_error_message
        (''Length mismatch: Expected axis has '' @ show_nat (length cols)
           @ '' elements, new values have 10 elements''))"
  by (simp add: load_data_def load_data_try_def bind_exn_def set_columns_def length_labels
        show_nat_10 other_error_message_def)

text \<open>
  C5 (amended). Renaming is positional: when \<^verbatim>\<open>load_data\<close> returns, the file had ten
  columns and the table carries the ten fixed labels in order, the column at position \<open>i\<close>
  being the file's column at position \<open>i\<close> (imputed unless its label is \<^verbatim>\<open>Year\<close>),
  whatever it holds. A file whose column count is not ten is not mislabelled: the
  assignment raises, and the loader stops with the message of its second handler.
\<close>

theorem renaming_is_positional:
  "(length cols \<noteq> 10 \<longrightarrow>
      load_data (Inr cols) = Inl (other_error_message
        (''Length mismatch: Expected axis has '' @ show_nat (length cols)
           @ '' elements, new values have 10 elements'')))
   \<and> (load_data (Inr cols) = Inr (df, stats) \<longrightarrow>
        length cols = 10 \<and> map fst df = column_labels
        \<and> (\<forall>i < 10. df ! i = (column_labels ! i,
              if column_labels ! i \<noteq> ''Year'' then fill_column (cols ! i) else cols ! i)))"
proof (intro conjI impI)
  assume "length cols \<noteq> 10"
  then show "load_data (Inr cols) = Inl (other_error_message
        (''Length mismatch: Expected axis has '' @ show_nat (length cols)
           @ '' elements, new values have 10 elements''))"
    by (rule load_data_length_mismatch)
next
  assume l: "load_data (Inr cols) = Inr (df, stats)"
  then have t: "load_data_try (Inr cols) = Inr (df, stats)" by (simp add: load_data_Inr)
  show len: "length cols = 10" by (rule load_data_try_Inr(1)[OF t])
  then have ll: "length column_labels = length cols" by (simp add: column_labels_def)
  show "map fst df = column_labels"
    unfolding load_data_try_Inr(2)[OF t] using ll
    by (simp only: map_fst_relabel map_fst_zip order_refl)
  show "\<forall>i < 10. df ! i = (column_labels ! i,
              if column_labels ! i \<noteq> ''Year'' then fill_column (cols ! i) else cols ! i)"
    using loaded_nth[OF l] len by simp
qed

theorem renaming_is_positional_witness:
  "length nine_column_csv \<noteq> 10
   \<and> load_data (Inr nine_column_csv) = Inl (other_error_message
        ''Length mismatch: Expected axis has 9 elements, new values have 10 elements'')
   \<and> (\<exists>df stats. load_data (Inr swapped_csv) = Inr (df, stats)
        \<and> map fst df = column_labels
        \<and> df ! 3 = (''CO2_Emissions_Tons/Capita'', NumCol [Some 3, Some 4, Some 3, Some 4])
        \<and> df ! 4 = (''Sea_Level_Rise_mm'', NumCol [Some 4, Some 6, Some 1, Some 3]))"
proof -
  have n: "length nine_column_csv \<noteq> 10"
    by (simp add: nine_column_csv_def scenario_csv_def)
  have "\<exists>df stats. load_data (Inr swapped_csv) = Inr (df, stats)"
    by (simp add: swapped_csv_def scenario_csv_def load_eval)
  then obtain df stats where l: "load_data (Inr swapped_csv) = Inr (df, stats)" by blast
  have a: "load_data (Inr nine_column_csv) = Inl (other_error_message
        ''Length mismatch: Expected axis has 9 elements, new values have 10 elements'')"
    using renaming_is_positional[of nine_column_csv] n
    by (simp add: nine_column_csv_def scenario_csv_def show_nat_digit)
  have b: "map fst df = column_labels
      \<and> df ! 3 = (''CO2_Emissions_Tons/Capita'', NumCol [Some 3, Some 4, Some 3, Some 4])
      \<and> df ! 4 = (''Sea_Level_Rise_mm'', NumCol [Some 4, Some 6, Some 1, Some 3])"
    using renaming_is_positional[of swapped_csv df stats] l
    by (simp add: swapped_csv_def scenario_csv_def column_labels_def median_def)
  with n a b l show ?thesis by blast
qed

text \<open>A file of nine columns produces no table.\<close>

theorem nine_columns_fail:
  "load_data (Inr nine_column_csv) = Inl
     ''An error occurred during data loading or preprocessing: Length mismatch: Expected axis has 9 elements, new values have 10 elements''
   \<and> length nine_column_csv = 9"
  by (simp add: nine_column_csv_def scenario_csv_def load_data_def load_data_try_def bind_exn_def
      set_columns_def length_labels show_nat_10 show_nat_digit)



section \<open>Filtering and the scatter plot\<close>



lemma cell_eq_iff: "cell_eq x k \<longleftrightarrow> x = k \<and> k \<noteq> NA"
  by (cases x; cases k) simp_all



lemma getitem_Inr: "getitem df k = Inr c \<longleftrightarrow> map_of df k = Some c"
  by (simp add: getitem_def split: option.splits)

lemma length_mask_list_le: "length (mask_list m xs) \<le> length xs"
  unfolding mask_list_def
  by (metis length_map length_filter_le length_zip min.cobounded2 order_trans)


lemma scenario_table_loaded: "observation_table (Inr scenario_csv) = Some scenario_table"
  by (simp add: scenario_table_def scenario_csv_def load_eval)


lemma wf_frame_length:
  "wf_frame df \<Longrightarrow> map_of df k = Some c \<Longrightarrow> length (cells c) = nrows df"
  by (auto simp: wf_frame_def list_all_iff dest!: map_of_SomeD)

lemma in_labels: "k \<in> set (map fst df) \<longleftrightarrow> map_of df k \<noteq> None"
  by (simp add: map_of_eq_None_iff)

lemma zip4_points:
  fixes ds :: "cell option list"
  assumes "length as = length bs" "length bs = length cs" "length cs = length ds"
  shows "map point_x (map (\<lambda>(vx, vy, h, c). \<lparr>point_x = vx, point_y = vy, hover_name = h, point_color = c\<rparr>)
            (zip as (zip bs (zip cs ds)))) = as
    \<and> map point_y (map (\<lambda>(vx, vy, h, c). \<lparr>point_x = vx, point_y = vy, hover_name = h, point_color = c\<rparr>)
            (zip as (zip bs (zip cs ds)))) = bs
    \<and> map hover_name (map (\<lambda>(vx, vy, h, c). \<lparr>point_x = vx, point_y = vy, hover_name = h, point_color = c\<rparr>)
            (zip as (zip bs (zip cs ds)))) = cs
    \<and> map point_color (map (\<lambda>(vx, vy, h, c). \<lparr>point_x = vx, point_y = vy, hover_name = h, point_color = c\<rparr>)
            (zip as (zip bs (zip cs ds)))) = ds
    \<and> length (map (\<lambda>(vx, vy, h, c). \<lparr>point_x = vx, point_y = vy, hover_name = h, point_color = c\<rparr>)
            (zip as (zip bs (zip cs ds)))) = length as"
  using assms by (induction as bs cs ds rule: list_induct4) auto

text \<open>
  C9. If one of the two axis metrics is not a column of the filtered table, the view is the
  warning. Otherwise the plot has one point per row of the table, carrying the row's two
  metric values and its country; every point carries the row's year as colour when the
  selection is \<^verbatim>\<open>"All"\<close>, and no point has a colour otherwise.
\<close>

theorem scatter_points:
  "(scatter_x_metric \<notin> set (map fst df) \<or> scatter_y_metric \<notin> set (map fst df) \<longrightarrow>
      fig_scatter df selected scatter_x_metric scatter_y_metric
        = Inr (Scatter_Warning ''Please ensure both selected metrics are available in the dataset.''))
   \<and> (wf_frame df \<and> getitem df scatter_x_metric = Inr xs \<and> getitem df scatter_y_metric = Inr ys
        \<and> getitem df ''Country'' = Inr hs \<and> getitem df ''Year'' = Inr ts \<longrightarrow>
       (\<exists>ps. fig_scatter df selected scatter_x_metric scatter_y_metric = Inr (Scatter_Plot ps)
          \<and> length ps = nrows df
          \<and> map point_x ps = cells xs \<and> map point_y ps = cells ys
          \<and> map hover_name ps = cells hs
          \<and> map point_color ps =
              (if selected = Str ''All'' then map Some (cells ts) else replicate (nrows df) None)))"
proof (intro conjI impI)
  assume "scatter_x_metric \<notin> set (map fst df) \<or> scatter_y_metric \<notin> set (map fst df)"
  then show "fig_scatter df selected scatter_x_metric scatter_y_metric
        = Inr (Scatter_Warning ''Please ensure both selected metrics are available in the dataset.'')"
    by (auto simp: fig_scatter_def)
next
  assume a: "wf_frame df \<and> getitem df scatter_x_metric = Inr xs \<and> getitem df scatter_y_metric = Inr ys
        \<and> getitem df ''Country'' = Inr hs \<and> getitem df ''Year'' = Inr ts"
  then have m: "map_of df scatter_x_metric = Some xs" "map_of df scatter_y_metric = Some ys"
      "map_of df ''Country'' = Some hs" "map_of df ''Year'' = Some ts"
    by (simp_all add: getitem_Inr)
  from a m have len: "length (cells xs) = nrows df" "length (cells ys) = nrows df"
      "length (cells hs) = nrows df" "length (cells ts) = nrows df"
    by (simp_all add: wf_frame_length)
  have inl: "scatter_x_metric \<in> set (map fst df)" "scatter_y_metric \<in> set (map fst df)"
    using m by (simp_all add: in_labels del: set_map)
  show "\<exists>ps. fig_scatter df selected scatter_x_metric scatter_y_metric = Inr (Scatter_Plot ps)
          \<and> length ps = nrows df
          \<and> map point_x ps = cells xs \<and> map point_y ps = cells ys
          \<and> map hover_name ps = cells hs
          \<and> map point_color ps =
              (if selected = Str ''All'' then map Some (cells ts) else replicate (nrows df) None)"
  proof (cases "selected = Str ''All''")
    case True
    have "length (cells xs) = length (cells ys)" "length (cells ys) = length (cells hs)"
      "length (cells hs) = length (map Some (cells ts))" using len by simp_all
    from zip4_points[OF this] True inl m len show ?thesis
      by (simp add: fig_scatter_def px_scatter_def bind_exn_def getitem_def del: set_map)
  next
    case False
    have r: "map (\<lambda>h. None) (cells hs) = replicate (nrows df) (None :: cell option)"
      using len(3) by (simp add: map_replicate_const)
    have "length (cells xs) = length (cells ys)" "length (cells ys) = length (cells hs)"
      "length (cells hs) = length (map (\<lambda>h. None :: cell option) (cells hs))" using len by simp_all
    from zip4_points[OF this] False inl m len r show ?thesis
      by (simp add: fig_scatter_def px_scatter_def bind_exn_def getitem_def del: set_map)
  qed
qed

lemma scenario_B_filtered: "df_filtered scenario_table (Str ''B'') = Inr scenario_table_B"
  by (simp add: df_filtered_def scenario_table_def scenario_table_B_def scenario_csv_def
      column_labels_def bind_exn_def getitem_def eq_mask_def mask_list_def)

theorem scatter_points_witness:
  "fig_scatter scenario_table_B (Str ''B'') ''Humidity'' ''Population''
     = Inr (Scatter_Warning ''Please ensure both selected metrics are available in the dataset.'')
   \<and> df_filtered scenario_table (Str ''B'') = Inr scenario_table_B
   \<and> (\<exists>ps. fig_scatter scenario_table_B (Str ''B'') ''CO2_Emissions_Tons/Capita'' ''Population''
              = Inr (Scatter_Plot ps)
         \<and> length ps = 2 \<and> map point_x ps = [Num 1, Num 3] \<and> map point_y ps = [Num 30, Num 32]
         \<and> map hover_name ps = [Str ''B'', Str ''B''] \<and> map point_color ps = [None, None])
   \<and> (\<exists>ps. fig_scatter scenario_table (Str ''All'') ''CO2_Emissions_Tons/Capita'' ''Population''
              = Inr (Scatter_Plot ps)
         \<and> length ps = 4 \<and> map point_x ps = [Num 4, Num 6, Num 1, Num 3]
         \<and> map point_y ps = [Num 10, Num 12, Num 30, Num 32]
         \<and> map hover_name ps = [Str ''A'', Str ''A'', Str ''B'', Str ''B'']
         \<and> map point_color ps = [Some (Num 2000), Some (Num 2001), Some (Num 2000), Some (Num 2001)])"
proof -
  have w: "fig_scatter scenario_table_B (Str ''B'') ''Humidity'' ''Population''
     = Inr (Scatter_Warning ''Please ensure both selected metrics are available in the dataset.'')"
    using scatter_points[of "''Humidity''" scenario_table_B "''Population''" "Str ''B''"]
    by (simp add: scenario_table_B_def column_labels_def Avg_Temperature_C_def)
  have b: "\<exists>ps. fig_scatter scenario_table_B (Str ''B'') ''CO2_Emissions_Tons/Capita'' ''Population''
              = Inr (Scatter_Plot ps)
         \<and> length ps = 2 \<and> map point_x ps = [Num 1, Num 3] \<and> map point_y ps = [Num 30, Num 32]
         \<and> map hover_name ps = [Str ''B'', Str ''B''] \<and> map point_color ps = [None, None]"
    using scatter_points[of "''CO2_Emissions_Tons/Capita''" scenario_table_B "''Population''" "Str ''B''"
        "NumCol [Some 1, Some 3]" "NumCol [Some 30, Some 32]" "ObjCol [Some ''B'', Some ''B'']"
        "NumCol [Some 2000, Some 2001]"]
    by (simp add: scenario_table_B_def column_labels_def Avg_Temperature_C_def wf_frame_def getitem_def
        numeral_2_eq_2)
  have a: "\<exists>ps. fig_scatter scenario_table (Str ''All'') ''CO2_Emissions_Tons/Capita'' ''Population''
              = Inr (Scatter_Plot ps)
         \<and> length ps = 4 \<and> map point_x ps = [Num 4, Num 6, Num 1, Num 3]
         \<and> map point_y ps = [Num 10, Num 12, Num 30, Num 32]
         \<and> map hover_name ps = [Str ''A'', Str ''A'', Str ''B'', Str ''B'']
         \<and> map point_color ps = [Some (Num 2000), Some (Num 2001), Some (Num 2000), Some (Num 2001)]"
    using scatter_points[of "''CO2_Emissions_Tons/Capita''" scenario_table "''Population''" "Str ''All''"
        "NumCol [Some 4, Some 6, Some 1, Some 3]" "NumCol [Some 10, Some 12, Some 30, Some 32]"
        "ObjCol [Some ''A'', Some ''A'', Some ''B'', Some ''B'']"
        "NumCol [Some 2000, Some 2001, Some 2000, Some 2001]"]
    by (simp add: scenario_table_def scenario_csv_def column_labels_def Avg_Temperature_C_def
        wf_frame_def getitem_def eval_nat_numeral)
  from w a b scenario_B_filtered show ?thesis by blast
qed

section \<open>Yearly trends\<close>








section \<open>Correlation heatmap\<close>












section \<open>The country summary\<close>

lemma mapM_exn_list_all2:
  "mapM_exn f xs = Inr ys \<Longrightarrow> list_all2 (\<lambda>x y. f x = Inr y) xs ys"
proof (induction xs arbitrary: ys)
  case Nil
  then show ?case by simp
next
  case (Cons x xs)
  then show ?case
    by (auto simp: bind_exn_def split: sum.splits)
qed

lemma agg_row_Country: "agg_row df by k = Inr r \<Longrightarrow> Country r = k"
  by (auto simp: agg_row_def bind_exn_def Let_def split: sum.splits)

lemma groupby_agg_Inr:
  assumes "groupby_agg df = Inr rows"
  shows "\<exists>by. getitem df ''Country'' = Inr by \<and> map Country rows = group_keys by
           \<and> list_all2 (\<lambda>k r. agg_row df by k = Inr r) (group_keys by) rows"
proof -
  from assms obtain "by" where b: "getitem df ''Country'' = Inr by"
      and m: "mapM_exn (agg_row df by) (group_keys by) = Inr rows"
    by (auto simp: groupby_agg_def bind_exn_def split: sum.splits)
  from mapM_exn_list_all2[OF m] have l: "list_all2 (\<lambda>k r. agg_row df by k = Inr r) (group_keys by) rows" .
  then have "list_all2 (\<lambda>k r. Country r = k) (group_keys by) rows"
    by (rule list_all2_mono) (rule agg_row_Country)
  then have "map Country rows = group_keys by"
    by (induction rule: list_all2_induct) simp_all
  with b l show ?thesis by blast
qed

lemma cells_key_column_NumCol:
  "cells (NumCol (map Some ys)) = map Num ys"
  by (simp add: comp_def)

lemma group_keys_distinct: "distinct (group_keys by)"
  by (cases "by") (simp_all add: group_keys_def comp_def distinct_map inj_on_def)

lemma set_dropna: "set (dropna xs) = {v. Some v \<in> set xs}"
proof (induction xs)
  case Nil
  then show ?case by simp
next
  case (Cons x xs)
  then show ?case by (cases x) auto
qed

lemma cells_NumCol_set: "set (cells (NumCol xs)) - {NA} = Num ` {v. Some v \<in> set xs}"
  by (force simp: image_iff split: option.splits)

lemma cells_ObjCol_set: "set (cells (ObjCol xs)) - {NA} = Str ` {v. Some v \<in> set xs}"
  by (force simp: image_iff split: option.splits)

lemma group_keys_set: "set (group_keys by) = set (cells by) - {NA}"
proof (cases "by")
  case (NumCol xs)
  then show ?thesis
    unfolding NumCol cells_NumCol_set by (simp add: group_keys_def comp_def set_dropna)
next
  case (ObjCol xs)
  then show ?thesis
    unfolding ObjCol cells_ObjCol_set by (simp add: group_keys_def comp_def set_dropna)
qed

lemma mset_sort_values_desc: "mset (sort_values_desc rows) = mset rows"
proof -
  have "mset (filter (\<lambda>r. Avg_CO2_Emissions r \<noteq> None) rows)
      + mset (filter (\<lambda>r. Avg_CO2_Emissions r = None) rows) = mset rows"
    by (induction rows) auto
  then show ?thesis by (simp add: sort_values_desc_def)
qed

lemma ge_na_last_sorted: "sorted_wrt ge_na_last (map Avg_CO2_Emissions (sort_values_desc rows))"
proof -
  let ?f = "\<lambda>r. - the (Avg_CO2_Emissions r)"
  let ?s = "sort_key ?f (filter (\<lambda>r. Avg_CO2_Emissions r \<noteq> None) rows)"
  let ?n = "filter (\<lambda>r. Avg_CO2_Emissions r = None) rows"
  have "sorted (map ?f ?s)" by (rule sorted_sort_key)
  then have "sorted_wrt (\<lambda>r r'. ?f r \<le> ?f r') ?s" by (simp add: sorted_wrt_map)
  then have "sorted_wrt (\<lambda>r r'. ge_na_last (Avg_CO2_Emissions r) (Avg_CO2_Emissions r')) ?s"
    by (rule sorted_wrt_mono_rel[rotated]) auto
  moreover have "sorted_wrt (\<lambda>r r'. ge_na_last (Avg_CO2_Emissions r) (Avg_CO2_Emissions r')) ?n"
    by (rule sorted_wrt_mono_rel[where P="\<lambda>x y. True"]) auto
  ultimately show ?thesis
    by (auto simp: sort_values_desc_def sorted_wrt_map sorted_wrt_append)
qed

lemma loaded_distinct:
  assumes "load_data (Inr cols) = Inr (df, stats)"
  shows "distinct (map fst df)" and "length df = 10" and "length cols = 10"
proof -
  from assms have t: "load_data_try (Inr cols) = Inr (df, stats)" by (simp add: load_data_Inr)
  show len: "length cols = 10" by (rule load_data_try_Inr(1)[OF t])
  have "map fst df = column_labels"
    unfolding load_data_try_Inr(2)[OF t] using len
    by (simp only: map_fst_relabel map_fst_zip order_refl length_labels)
  then show "distinct (map fst df)" "length df = 10"
    using labels_distinct length_labels by (simp_all, metis length_map)
qed

lemma loaded_getitem:
  assumes "load_data (Inr cols) = Inr (df, stats)" and "i < 10"
  shows "getitem df (column_labels ! i)
    = Inr (if column_labels ! i \<noteq> ''Year'' then fill_column (cols ! i) else cols ! i)"
proof -
  note d = loaded_distinct[OF assms(1)]
  from assms(2) d have "df ! i \<in> set df" by simp
  moreover from assms(2) d have "df ! i = (column_labels ! i,
      if column_labels ! i \<noteq> ''Year'' then fill_column (cols ! i) else cols ! i)"
    using loaded_nth[OF assms(1), of i] by simp
  ultimately show ?thesis using d(1) by (simp add: getitem_Inr)
qed

lemma group_nonempty:
  "k \<in> set cs \<Longrightarrow> k \<noteq> NA \<Longrightarrow> length cs = length xs \<Longrightarrow> None \<notin> set xs \<Longrightarrow>
   dropna (mask_list (map (\<lambda>x. cell_eq x k) cs) xs) \<noteq> []"
proof (induction cs arbitrary: xs)
  case Nil
  then show ?case by simp
next
  case (Cons c cs)
  then obtain x xs' where xs: "xs = x # xs'" by (cases xs) auto
  with Cons.prems obtain v where v: "x = Some v" by (cases x) auto
  show ?case
  proof (cases "c = k")
    case True
    with xs v Cons.prems show ?thesis by (simp add: mask_list_def cell_eq_iff)
  next
    case False
    with Cons.prems xs have "dropna (mask_list (map (\<lambda>x. cell_eq x k) cs) xs') \<noteq> []"
      by (intro Cons.IH) auto
    with xs v False show ?thesis by (simp add: mask_list_def cell_eq_iff)
  qed
qed

lemma agg_row_co2:
  "agg_row df by k = Inr r \<Longrightarrow> getitem df ''CO2_Emissions_Tons/Capita'' = Inr (NumCol xs) \<Longrightarrow>
   Avg_CO2_Emissions r = mean (dropna (mask_list (eq_mask by k) xs))"
  by (auto simp: agg_row_def named_agg_def bind_exn_def Let_def split: sum.splits)

lemma list_all2_right_ex:
  "list_all2 P xs ys \<Longrightarrow> y \<in> set ys \<Longrightarrow> \<exists>x \<in> set xs. P x y"
  by (induction rule: list_all2_induct) auto

lemma sorted_wrt_adjacent:
  "sorted_wrt P xs \<Longrightarrow> Suc i < length xs \<Longrightarrow> P (xs ! i) (xs ! Suc i)"
  by (simp add: sorted_wrt_nth_less)

lemma ge_na_last_float: "ge_na_last a b \<Longrightarrow> a \<noteq> None \<Longrightarrow> b \<noteq> None \<Longrightarrow> float_ge a b"
  by (cases a; cases b) simp_all

text \<open>
  C2 (amended). When \<^verbatim>\<open>load_data\<close> returns, the country summary has exactly one row for
  each distinct non-missing \<^verbatim>\<open>Country\<close> value of the observation table, and its rows are
  in descending order of \<^verbatim>\<open>Avg_CO2_Emissions\<close> with the rows whose mean is missing
  last. When the CO2 column of the file is numeric with at least one entry present, no
  mean is missing and every row's mean is \<^verbatim>\<open>>=\<close> the next row's.
\<close>

theorem summary_rows_sorted:
  assumes "load_data (Inr cols) = Inr (df, stats)"
  shows "\<exists>by. getitem df ''Country'' = Inr by
       \<and> distinct (map Country stats)
       \<and> set (map Country stats) = set (cells by) - {NA}
       \<and> length stats = card (set (cells by) - {NA})
       \<and> (\<forall>i. Suc i < length stats \<longrightarrow>
            ge_na_last (Avg_CO2_Emissions (stats ! i)) (Avg_CO2_Emissions (stats ! Suc i)))
       \<and> (\<forall>xs. cols ! 3 = NumCol xs \<and> dropna xs \<noteq> [] \<and> length (cells (cols ! 1)) = length xs \<longrightarrow>
            (\<forall>i. Suc i < length stats \<longrightarrow>
              float_ge (Avg_CO2_Emissions (stats ! i)) (Avg_CO2_Emissions (stats ! Suc i))))"
proof -
  from assms have t: "load_data_try (Inr cols) = Inr (df, stats)" by (simp add: load_data_Inr)
  from load_data_try_Inr(3)[OF t] obtain rows where
    rows: "groupby_agg df = Inr rows" and stats: "stats = sort_values_desc rows" by blast
  from groupby_agg_Inr[OF rows] obtain "by" where
    b: "getitem df ''Country'' = Inr by" and keys: "map Country rows = group_keys by"
    and agg: "list_all2 (\<lambda>k r. agg_row df by k = Inr r) (group_keys by) rows" by blast
  have ms: "mset stats = mset rows" by (simp add: stats mset_sort_values_desc)
  then have "mset (map Country stats) = mset (map Country rows)" by simp
  then have msc: "mset (map Country stats) = mset (group_keys by)" by (simp only: keys)
  have 1: "distinct (map Country stats)"
    using mset_eq_imp_distinct_iff[OF msc] group_keys_distinct[of "by"] by simp
  have 2: "set (map Country stats) = set (cells by) - {NA}"
    using mset_eq_setD[OF msc] group_keys_set[of "by"] by simp
  have 3: "length stats = card (set (cells by) - {NA})"
    using distinct_card[OF 1] 2 by simp
  have srt: "sorted_wrt ge_na_last (map Avg_CO2_Emissions stats)"
    unfolding stats by (rule ge_na_last_sorted)
  have 4: "\<forall>i. Suc i < length stats \<longrightarrow>
            ge_na_last (Avg_CO2_Emissions (stats ! i)) (Avg_CO2_Emissions (stats ! Suc i))"
    using sorted_wrt_adjacent[OF srt] by simp
  have 5: "\<forall>xs. cols ! 3 = NumCol xs \<and> dropna xs \<noteq> [] \<and> length (cells (cols ! 1)) = length xs \<longrightarrow>
            (\<forall>i. Suc i < length stats \<longrightarrow>
              float_ge (Avg_CO2_Emissions (stats ! i)) (Avg_CO2_Emissions (stats ! Suc i)))"
  proof (intro allI impI)
    fix xs i
    assume h: "cols ! 3 = NumCol xs \<and> dropna xs \<noteq> [] \<and> length (cells (cols ! 1)) = length xs"
      and i: "Suc i < length stats"
    let ?ys = "fillna xs (median xs)"
    have co2: "getitem df ''CO2_Emissions_Tons/Capita'' = Inr (NumCol ?ys)"
      using loaded_getitem[OF assms, of 3] h by (simp add: column_labels_def)
    have byc: "by = fill_column (cols ! 1)"
      using loaded_getitem[OF assms, of 1] b by (simp add: column_labels_def)
    have len: "length (cells by) = length ?ys"
      using h by (simp add: byc cells_fill_length fillna_median)
    have nomiss: "None \<notin> set ?ys" using h by (simp add: fillna_no_missing)
    have some: "Avg_CO2_Emissions r \<noteq> None" if "r \<in> set stats" for r
    proof -
      from that mset_eq_setD[OF ms] have "r \<in> set rows" by simp
      with agg have "\<exists>k \<in> set (group_keys by). agg_row df by k = Inr r"
        by (rule list_all2_right_ex)
      then obtain k where k: "k \<in> set (group_keys by)" and r: "agg_row df by k = Inr r" ..
      from k have kc: "k \<in> set (cells by)" "k \<noteq> NA" by (simp_all add: group_keys_set)
      have "dropna (mask_list (eq_mask by k) ?ys) \<noteq> []"
        unfolding eq_mask_def using kc len nomiss by (intro group_nonempty) simp_all
      then show ?thesis
        using agg_row_co2[OF r co2] by (simp add: mean_def)
    qed
    from i have "stats ! i \<in> set stats" "stats ! Suc i \<in> set stats" by simp_all
    with some 4 i show "float_ge (Avg_CO2_Emissions (stats ! i)) (Avg_CO2_Emissions (stats ! Suc i))"
      by (intro ge_na_last_float) auto
  qed
  from b 1 2 3 4 5 show ?thesis
    by (intro exI[of _ "by"] conjI) assumption+
qed

lemma scenario_summary:
  "map_option (map (\<lambda>r. (Country r, Avg_CO2_Emissions r))) (country_summary (Inr scenario_csv))
     = Some [(Str ''A'', Some 5), (Str ''B'', Some 2)]"
  by (simp add: scenario_csv_def load_eval)

theorem summary_rows_sorted_witness:
  "\<exists>df stats. load_data (Inr scenario_csv) = Inr (df, stats)
     \<and> getitem df ''Country'' = Inr (ObjCol [Some ''A'', Some ''A'', Some ''B'', Some ''B''])
     \<and> length stats = 2
     \<and> map (\<lambda>r. (Country r, Avg_CO2_Emissions r)) stats = [(Str ''A'', Some 5), (Str ''B'', Some 2)]
     \<and> float_ge (Avg_CO2_Emissions (stats ! 0)) (Avg_CO2_Emissions (stats ! 1))"
proof -
  from scenario_loads obtain df stats where l: "load_data (Inr scenario_csv) = Inr (df, stats)"
    by blast
  from summary_rows_sorted[OF l] obtain "by" where t:
      "getitem df ''Country'' = Inr by
       \<and> distinct (map Country stats)
       \<and> set (map Country stats) = set (cells by) - {NA}
       \<and> length stats = card (set (cells by) - {NA})
       \<and> (\<forall>i. Suc i < length stats \<longrightarrow>
            ge_na_last (Avg_CO2_Emissions (stats ! i)) (Avg_CO2_Emissions (stats ! Suc i)))
       \<and> (\<forall>xs. scenario_csv ! 3 = NumCol xs \<and> dropna xs \<noteq> [] \<and> length (cells (scenario_csv ! 1)) = length xs \<longrightarrow>
            (\<forall>i. Suc i < length stats \<longrightarrow>
              float_ge (Avg_CO2_Emissions (stats ! i)) (Avg_CO2_Emissions (stats ! Suc i))))" ..
  have b: "by = ObjCol [Some ''A'', Some ''A'', Some ''B'', Some ''B'']"
    using loaded_getitem[OF l, of 1] t by (simp add: column_labels_def scenario_csv_def)
  have len: "length stats = 2"
    using t unfolding b by simp
  have h: "scenario_csv ! 3 = NumCol [Some 4, Some 6, Some 1, Some 3]
      \<and> dropna [Some 4, Some 6, Some 1, Some (3::real)] \<noteq> []
      \<and> length (cells (scenario_csv ! 1)) = length [Some 4, Some 6, Some 1, Some (3::real)]"
    by (simp add: scenario_csv_def)
  from t have "\<forall>xs. scenario_csv ! 3 = NumCol xs \<and> dropna xs \<noteq> [] \<and> length (cells (scenario_csv ! 1)) = length xs \<longrightarrow>
            (\<forall>i. Suc i < length stats \<longrightarrow>
              float_ge (Avg_CO2_Emissions (stats ! i)) (Avg_CO2_Emissions (stats ! Suc i)))"
    by (elim conjE)
  from this[rule_format, OF h, of 0] len
  have f: "float_ge (Avg_CO2_Emissions (stats ! 0)) (Avg_CO2_Emissions (stats ! 1))" by simp
  have s: "map (\<lambda>r. (Country r, Avg_CO2_Emissions r)) stats = [(Str ''A'', Some 5), (Str ''B'', Some 2)]"
    using scenario_summary l by (simp add: country_summary_def)
  from t b have g: "getitem df ''Country'' = Inr (ObjCol [Some ''A'', Some ''A'', Some ''B'', Some ''B''])"
    by simp
  from l g len s f show ?thesis
    by (intro exI[of _ df] exI[of _ stats] conjI) assumption+
qed

text \<open>
  On the file whose CO2 column is empty both countries have a missing mean, and
  \<^verbatim>\<open>NaN >= NaN\<close> is false.
\<close>

theorem missing_means_do_not_compare:
  "map_option (map (\<lambda>r. (Country r, Avg_CO2_Emissions r))) (country_summary (Inr no_co2_csv))
     = Some [(Str ''A'', None), (Str ''B'', None)]
   \<and> \<not> float_ge None None"
  by (simp add: no_co2_csv_def scenario_csv_def load_eval)







end
